theory Spec2Isabelle
  imports Main "HOL-Library.Multiset"
begin

section \<open>Python values, exceptions and tables\<close>

text \<open>
  The cell values a table can hold.  \<open>PNaN\<close> is the float pandas uses for a missing
  value; \<open>PObj\<close> stands for any other object that is neither a container nor one of the
  scalars below (a timestamp, a decimal); it is truthy and cannot be iterated.
\<close>

datatype pyval =
    PNone
  | PBool bool
  | PInt int
  | PNaN
  | PStr string
  | PList "pyval list"
  | PDict "(string \<times> pyval) list"
  | PObj string

datatype exn =
    EnvironmentError string
  | ConnectionError string
  | KeyError string
  | TypeError string
  | ValueError string
  | IndexError string
  | OtherError string

definition quoted :: "string \<Rightarrow> string" where
  "quoted s = [CHR 0x27] @ s @ [CHR 0x27]"

text \<open>\<open>str(e)\<close>: a \<open>KeyError\<close> prints the repr of its key, the others their message.\<close>

fun str_exn :: "exn \<Rightarrow> string" where
  "str_exn (EnvironmentError m) = m"
| "str_exn (ConnectionError m) = m"
| "str_exn (KeyError k) = quoted k"
| "str_exn (TypeError m) = m"
| "str_exn (ValueError m) = m"
| "str_exn (IndexError m) = m"
| "str_exn (OtherError m) = m"

text \<open>A pandas DataFrame: the column names and, per row, the values in column order.\<close>

record dataframe =
  columns :: "string list"
  rows :: "pyval list list"


section \<open>lib.py: the engine and the query cache\<close>

record db_url =
  url_username :: string
  url_password :: string
  url_host :: string
  url_port :: int
  url_database :: string

text \<open>
  What the program does to the outside world, in the order it does it: building the
  connection URL, opening a connection (the \<open>SELECT 1\<close> round trip), running a read query,
  and the statements of a write transaction.
\<close>

datatype effect =
    BuildUrl db_url
  | NetConnect db_url
  | Query string
  | TxBegin
  | TxDelete
  | TxInsert "pyval list"
  | TxCommit
  | TxRollback

text \<open>
  The collaborators the program calls and does not define: the process environment,
  Python's \<open>int\<close>, the database server's answer to a connection attempt and to a read
  query, and the failures the server may raise at each step of a write transaction
  (\<open>None\<close>: the step succeeds).
\<close>

record sys =
  environ :: "string \<rightharpoonup> string"
  py_int :: "string \<Rightarrow> int option"
  connect_error :: "db_url \<Rightarrow> exn option"
  read_sql :: "pyval list list \<Rightarrow> string \<Rightarrow> exn + dataframe"
  begin_error :: "exn option"
  delete_error :: "exn option"
  insert_error :: "string list \<Rightarrow> pyval list \<Rightarrow> exn option"
  commit_error :: "exn option"

definition missing_variable :: "string \<Rightarrow> exn" where
  "missing_variable k =
     EnvironmentError (''Missing required environment variable: '' @ str_exn (KeyError k))"

definition engine_failure :: "exn \<Rightarrow> exn" where
  "engine_failure e = ConnectionError (''Failed to create database engine: '' @ str_exn e)"

text \<open>
  \<open>_create_database_engine\<close>.  The first \<open>try\<close> reads the settings in the order of the
  source; a missing key leaves it at once.  The second \<open>try\<close> converts the port, builds
  the URL and makes the test connection.  The result comes with the effects performed.
\<close>

definition create_database_engine :: "sys \<Rightarrow> effect list \<times> (exn + db_url)" where
  "create_database_engine S =
     (case environ S ''DB_USER'' of
        None \<Rightarrow> ([], Inl (missing_variable ''DB_USER''))
      | Some user \<Rightarrow>
     (case environ S ''DB_PASSWORD'' of
        None \<Rightarrow> ([], Inl (missing_variable ''DB_PASSWORD''))
      | Some pw \<Rightarrow>
     (case environ S ''DB_HOST'' of
        None \<Rightarrow> ([], Inl (missing_variable ''DB_HOST''))
      | Some h \<Rightarrow>
     (let port = (case environ S ''DB_PORT'' of None \<Rightarrow> ''5432'' | Some p \<Rightarrow> p) in
      case environ S ''DB_NAME'' of
        None \<Rightarrow> ([], Inl (missing_variable ''DB_NAME''))
      | Some db \<Rightarrow>
     (case py_int S port of
        None \<Rightarrow>
          ([], Inl (engine_failure
             (ValueError (''invalid literal for int() with base 10: '' @ quoted port))))
      | Some n \<Rightarrow>
          (let url = \<lparr>url_username = user, url_password = pw, url_host = h,
                      url_port = n, url_database = db\<rparr> in
           case connect_error S url of
             Some e \<Rightarrow> ([BuildUrl url, NetConnect url], Inl (engine_failure e))
           | None \<Rightarrow> ([BuildUrl url, NetConnect url], Inr url)))))))"

text \<open>
  The state the pages share: the rows of \<open>public.test\<close>, the effects so far, the engine
  kept by \<open>st.cache_resource\<close>, the entries of \<open>load_data\<close>'s \<open>st.cache_data\<close> (the table
  and the time it was stored, by SQL text), the entries of \<open>process_geometry\<close>'s
  \<open>st.cache_data\<close>, and the session's \<open>selected_rows\<close> (\<open>None\<close>: the key is not set).
\<close>

record 'r world =
  test_rows :: "pyval list list"
  trace :: "effect list"
  engine_cache :: "db_url option"
  data_cache :: "string \<rightharpoonup> (dataframe \<times> nat)"
  geom_cache :: "dataframe \<rightharpoonup> 'r"
  selected_rows :: "nat list option"

text \<open>\<open>get_database_engine\<close>: \<open>st.cache_resource\<close> keeps the engine once one was made.\<close>

definition get_database_engine :: "sys \<Rightarrow> 'r world \<Rightarrow> (exn + db_url) \<times> 'r world" where
  "get_database_engine S w =
     (case engine_cache w of
        Some eng \<Rightarrow> (Inr eng, w)
      | None \<Rightarrow>
          (case create_database_engine S of
             (effs, Inl e) \<Rightarrow> (Inl e, w\<lparr>trace := trace w @ effs\<rparr>)
           | (effs, Inr eng) \<Rightarrow>
               (Inr eng, w\<lparr>trace := trace w @ effs, engine_cache := Some eng\<rparr>)))"

text \<open>The body of \<open>load_data\<close>: get the engine, run the query.\<close>

definition load_data_body :: "sys \<Rightarrow> string \<Rightarrow> 'r world \<Rightarrow> (exn + dataframe) \<times> 'r world" where
  "load_data_body S sql w =
     (case get_database_engine S w of
        (Inl e, w1) \<Rightarrow> (Inl e, w1)
      | (Inr eng, w1) \<Rightarrow>
          (read_sql S (test_rows w1) sql, w1\<lparr>trace := trace w1 @ [Query sql]\<rparr>))"

definition ttl :: nat where
  "ttl = 600"

text \<open>
  \<open>load_data\<close> under \<open>st.cache_data(ttl=600)\<close>: an entry stored at time \<open>t\<close> answers a call
  at \<open>now\<close> while \<open>now < t + ttl\<close>; otherwise the body runs and a returned table is stored
  under the SQL text.  A raised exception stores nothing.
\<close>

definition load_data :: "sys \<Rightarrow> nat \<Rightarrow> string \<Rightarrow> 'r world \<Rightarrow> (exn + dataframe) \<times> 'r world" where
  "load_data S now sql w =
     (case data_cache w sql of
        Some (tbl, stored) \<Rightarrow>
          if now < stored + ttl then (Inr tbl, w)
          else (case load_data_body S sql w of
                  (Inl e, w1) \<Rightarrow> (Inl e, w1)
                | (Inr t, w1) \<Rightarrow> (Inr t, w1\<lparr>data_cache := (data_cache w1)(sql \<mapsto> (t, now))\<rparr>))
      | None \<Rightarrow>
          (case load_data_body S sql w of
             (Inl e, w1) \<Rightarrow> (Inl e, w1)
           | (Inr t, w1) \<Rightarrow> (Inr t, w1\<lparr>data_cache := (data_cache w1)(sql \<mapsto> (t, now))\<rparr>)))"

text \<open>\<open>load_data.clear()\<close> drops every entry.\<close>

definition load_data_clear :: "'r world \<Rightarrow> 'r world" where
  "load_data_clear w = w\<lparr>data_cache := Map.empty\<rparr>"

section \<open>pages/single_editor.py: the editable table\<close>

text \<open>
  How a run of a page script ends: it reaches its last line, \<open>st.stop()\<close> ends it,
  \<open>st.rerun()\<close> ends it and schedules another run, or an exception nobody caught ends it.
  The two control exceptions of the framework are not \<open>Exception\<close>s, so an
  \<open>except Exception\<close> clause lets them through.
\<close>

datatype control = Done | Stopped | Rerun | Crashed exn

text \<open>What \<open>st.error\<close>, \<open>st.warning\<close> and \<open>st.success\<close> put on the page.\<close>

datatype message = Error string | Warning string | Success string

record page_out =
  shown :: "message list"
  control :: control

text \<open>
  \<open>data.to_sql("test", conn, schema="public", if_exists="append", index=False)\<close> on the
  open connection: the grid's rows go into the transaction's working copy in grid order;
  the first row the server rejects raises, with the rows before it already inserted.
\<close>

fun to_sql :: "sys \<Rightarrow> string list \<Rightarrow> pyval list list \<Rightarrow> pyval list list \<times> effect list
                 \<Rightarrow> exn option \<times> (pyval list list \<times> effect list)" where
  "to_sql S cols [] tx = (None, tx)"
| "to_sql S cols (r # rs) (work, effs) =
     (case insert_error S cols r of
        Some e \<Rightarrow> (Some e, (work, effs))
      | None \<Rightarrow> to_sql S cols rs (work @ [r], effs @ [TxInsert r]))"

text \<open>
  The \<open>with engine.begin() as conn\<close> block: begin, delete every row, insert the grid.
  Leaving the block normally commits, and only a commit changes \<open>public.test\<close>; an
  exception inside the block, or a failing commit, rolls the working copy back and is
  raised again.
\<close>

definition replace_transaction :: "sys \<Rightarrow> dataframe \<Rightarrow> 'r world \<Rightarrow> exn option \<times> 'r world" where
  "replace_transaction S data w =
     (case begin_error S of
        Some e \<Rightarrow> (Some e, w)
      | None \<Rightarrow>
     (case delete_error S of
        Some e \<Rightarrow> (Some e, w\<lparr>trace := trace w @ [TxBegin, TxRollback]\<rparr>)
      | None \<Rightarrow>
     (case to_sql S (columns data) (rows data) ([], [TxBegin, TxDelete]) of
        (Some e, (work, effs)) \<Rightarrow> (Some e, w\<lparr>trace := trace w @ effs @ [TxRollback]\<rparr>)
      | (None, (work, effs)) \<Rightarrow>
     (case commit_error S of
        Some e \<Rightarrow> (Some e, w\<lparr>trace := trace w @ effs @ [TxRollback]\<rparr>)
      | None \<Rightarrow> (None, w\<lparr>test_rows := work, trace := trace w @ effs @ [TxCommit]\<rparr>)))))"

text \<open>The \<open>except Exception as e\<close> branch and the lines after the \<open>with\<close> block.\<close>

definition save_error :: "exn \<Rightarrow> page_out" where
  "save_error e = \<lparr>shown = [Error (''Error saving changes: '' @ str_exn e)], control = Done\<rparr>"

definition saved :: page_out where
  "saved = \<lparr>shown = [Success ''Changes saved successfully!''], control = Rerun\<rparr>"

text \<open>The handler of the "Save changes" button: the whole \<open>try\<close> statement.\<close>

definition save_changes :: "sys \<Rightarrow> dataframe \<Rightarrow> 'r world \<Rightarrow> page_out \<times> 'r world" where
  "save_changes S data w =
     (case get_database_engine S w of
        (Inl e, w1) \<Rightarrow> (save_error e, w1)
      | (Inr eng, w1) \<Rightarrow>
          (case replace_transaction S data w1 of
             (Some e, w2) \<Rightarrow> (save_error e, w2)
           | (None, w2) \<Rightarrow> (saved, load_data_clear w2)))"

text \<open>
  The page script.  \<open>edit\<close> is what the user did to the displayed table in
  \<open>st.data_editor\<close>; \<open>save_clicked\<close> is the button.
\<close>

definition single_editor ::
  "sys \<Rightarrow> nat \<Rightarrow> (dataframe \<Rightarrow> dataframe) \<Rightarrow> bool \<Rightarrow> 'r world \<Rightarrow> page_out \<times> 'r world" where
  "single_editor S now edit save_clicked w =
     (case load_data S now ''select * from public.test'' w of
        (Inl e, w1) \<Rightarrow> (\<lparr>shown = [], control = Crashed e\<rparr>, w1)
      | (Inr table, w1) \<Rightarrow>
          (let data = edit table in
           if save_clicked then save_changes S data w1
           else (\<lparr>shown = [], control = Done\<rparr>, w1)))"

section \<open>pages/dataframe_map.py: the table and its map\<close>

text \<open>
  A row as \<open>iterrows\<close> yields it: the values labelled by their columns.  A dictionary
  value (\<open>PDict\<close>) is an association list read by its first entry for a key.
\<close>

type_synonym series = "(string \<times> pyval) list"

definition iterrows :: "dataframe \<Rightarrow> series list" where
  "iterrows data = map (zip (columns data)) (rows data)"

definition series_get :: "series \<Rightarrow> string \<Rightarrow> exn + pyval" where
  "series_get row k = (case map_of row k of None \<Rightarrow> Inl (KeyError k) | Some v \<Rightarrow> Inr v)"

definition series_drop :: "string \<Rightarrow> series \<Rightarrow> series" where
  "series_drop k row = filter (\<lambda>(c, v). c \<noteq> k) row"

text \<open>The truth value Python's \<open>if\<close> gives a value.\<close>

fun truthy :: "pyval \<Rightarrow> bool" where
  "truthy PNone = False"
| "truthy (PBool b) = b"
| "truthy (PInt i) = (i \<noteq> 0)"
| "truthy PNaN = True"
| "truthy (PStr s) = (s \<noteq> [])"
| "truthy (PList xs) = (xs \<noteq> [])"
| "truthy (PDict d) = (d \<noteq> [])"
| "truthy (PObj n) = True"

text \<open>\<open>d.get(k, default)\<close>.\<close>

definition dict_get :: "(string \<times> pyval) list \<Rightarrow> string \<Rightarrow> pyval \<Rightarrow> pyval" where
  "dict_get d k dflt = (case map_of d k of None \<Rightarrow> dflt | Some v \<Rightarrow> v)"

text \<open>
  The elements \<open>list.extend\<close> takes from its argument, which are also what \<open>len\<close>
  counts: the items of a list, the characters of a string, the keys of a dictionary;
  anything else raises \<open>TypeError\<close>.
\<close>

fun py_iter :: "pyval \<Rightarrow> exn + pyval list" where
  "py_iter (PList xs) = Inr xs"
| "py_iter (PStr s) = Inr (map (\<lambda>c. PStr [c]) s)"
| "py_iter (PDict d) = Inr (map (\<lambda>(k, v). PStr k) d)"
| "py_iter v = Inl (TypeError ''object is not iterable'')"

text \<open>
  One round of the \<open>for idx, row in data.iterrows()\<close> loop, on the pair
  \<open>(features, row_data_list)\<close>.
\<close>

definition flatten_row :: "pyval list \<times> series list \<Rightarrow> series \<Rightarrow> exn + pyval list \<times> series list" where
  "flatten_row acc row =
     (case series_get row ''geometry'' of
        Inl e \<Rightarrow> Inl e
      | Inr feature_collection \<Rightarrow>
          if truthy feature_collection then
            (case feature_collection of
               PDict fc \<Rightarrow>
                 (case py_iter (dict_get fc ''features'' (PList [])) of
                    Inl e \<Rightarrow> Inl e
                  | Inr geom_features \<Rightarrow>
                      (let row_dict = series_drop ''geometry'' row in
                       Inr (fst acc @ geom_features,
                            snd acc @ replicate (length geom_features) row_dict)))
             | _ \<Rightarrow> Inr acc)
          else Inr acc)"

fun flatten_rows :: "pyval list \<times> series list \<Rightarrow> series list \<Rightarrow> exn + pyval list \<times> series list" where
  "flatten_rows acc [] = Inr acc"
| "flatten_rows acc (row # rest) =
     (case flatten_row acc row of Inl e \<Rightarrow> Inl e | Inr acc' \<Rightarrow> flatten_rows acc' rest)"

text \<open>
  The geospatial and JSON collaborators: turning one GeoJSON feature into a row of the
  frame (its shape and properties), the exception raised when a frame is built or
  reprojected with no feature at all (\<open>None\<close>: an empty frame comes back), reprojecting
  one row from EPSG:27700 to EPSG:4326, \<open>json.dumps(row_dict, indent=2)\<close>, and the
  centroid of the union of the rows' centroids.
\<close>

record 'g geo =
  feature_row :: "pyval \<Rightarrow> exn + 'g"
  no_features_error :: "exn option"
  reproject :: "'g \<Rightarrow> exn + 'g"
  dumps :: "series \<Rightarrow> exn + string"
  centroid :: "'g list \<Rightarrow> exn + 'g"

text \<open>
  A GeoDataFrame: one entry per feature, and the \<open>row_data\<close> column when it was added.
  It is \<open>empty\<close> when it has no row; \<open>gpd.GeoDataFrame()\<close> has none.
\<close>

record 'g geodataframe =
  gdf_rows :: "'g list"
  row_data :: "string list option"


definition empty_gdf :: "'g geodataframe" where
  "empty_gdf = \<lparr>gdf_rows = [], row_data = None\<rparr>"

text \<open>Apply a function that may raise to each element; the first exception wins.\<close>

fun traverse :: "('a \<Rightarrow> exn + 'b) \<Rightarrow> 'a list \<Rightarrow> exn + 'b list" where
  "traverse f [] = Inr []"
| "traverse f (x # xs) =
     (case f x of
        Inl e \<Rightarrow> Inl e
      | Inr y \<Rightarrow> (case traverse f xs of Inl e \<Rightarrow> Inl e | Inr ys \<Rightarrow> Inr (y # ys)))"

text \<open>
  \<open>gpd.GeoDataFrame.from_features(features, crs=27700)\<close> builds one row per feature and
  raises if one cannot be read; \<open>to_crs(4326)\<close> reprojects row by row.
\<close>

definition from_features :: "'g geo \<Rightarrow> pyval list \<Rightarrow> exn + 'g list" where
  "from_features L features =
     (case traverse (feature_row L) features of
        Inl e \<Rightarrow> Inl e
      | Inr rs \<Rightarrow>
          if rs = [] then (case no_features_error L of Some e \<Rightarrow> Inl e | None \<Rightarrow> Inr [])
          else Inr rs)"

definition to_crs :: "'g geo \<Rightarrow> 'g list \<Rightarrow> exn + 'g list" where
  "to_crs L rs = traverse (reproject L) rs"

text \<open>The \<open>try\<close> block of \<open>process_geometry\<close>.  Assigning a column checks its length.\<close>

definition process_geometry_try :: "'g geo \<Rightarrow> dataframe \<Rightarrow> exn + 'g geodataframe" where
  "process_geometry_try L data =
     (case flatten_rows ([], []) (iterrows data) of
        Inl e \<Rightarrow> Inl e
      | Inr (features, row_data_list) \<Rightarrow>
     (case from_features L features of
        Inl e \<Rightarrow> Inl e
      | Inr rs0 \<Rightarrow>
     (case to_crs L rs0 of
        Inl e \<Rightarrow> Inl e
      | Inr rs \<Rightarrow>
          if row_data_list \<noteq> [] then
            (case traverse (dumps L) row_data_list of
               Inl e \<Rightarrow> Inl e
             | Inr col \<Rightarrow>
                 if length col = length rs then Inr \<lparr>gdf_rows = rs, row_data = Some col\<rparr>
                 else Inl (ValueError ''Length of values does not match length of index''))
          else Inr \<lparr>gdf_rows = rs, row_data = None\<rparr>)))"

text \<open>
  The function body with its \<open>except\<close> branch: the messages it shows and the frame it
  returns.
\<close>

type_synonym 'g processed = "message list \<times> 'g geodataframe"

definition process_geometry_body :: "'g geo \<Rightarrow> dataframe \<Rightarrow> 'g processed" where
  "process_geometry_body L data =
     (case process_geometry_try L data of
        Inr gdf \<Rightarrow> ([], gdf)
      | Inl e \<Rightarrow> ([Error (''Error processing geometry: '' @ str_exn e)], empty_gdf))"
















section \<open>Vocabulary of the properties\<close>

definition required_settings :: "string list" where
  "required_settings = [''DB_USER'', ''DB_PASSWORD'', ''DB_HOST'', ''DB_NAME'']"


text \<open>
  A trace keeps its writes inside transactions: every delete and insert lies between a
  begin and the commit or rollback that closes it, and no transaction is left open.
\<close>

fun is_write :: "effect \<Rightarrow> bool" where
  "is_write TxDelete = True"
| "is_write (TxInsert r) = True"
| "is_write e = False"

fun in_transaction :: "bool \<Rightarrow> effect list \<Rightarrow> bool" where
  "in_transaction opened [] = (\<not> opened)"
| "in_transaction opened (TxBegin # es) = (\<not> opened \<and> in_transaction True es)"
| "in_transaction opened (TxCommit # es) = (opened \<and> in_transaction False es)"
| "in_transaction opened (TxRollback # es) = (opened \<and> in_transaction False es)"
| "in_transaction opened (e # es) = ((is_write e \<longrightarrow> opened) \<and> in_transaction opened es)"

text \<open>
  The ways a save can fail: no engine can be made, or a step of the transaction (begin,
  delete, the insert of some row of the grid, commit) is refused.
\<close>

definition tx_fails :: "sys \<Rightarrow> dataframe \<Rightarrow> bool" where
  "tx_fails S data =
     (begin_error S \<noteq> None \<or> delete_error S \<noteq> None
      \<or> list_ex (\<lambda>r. insert_error S (columns data) r \<noteq> None) (rows data)
      \<or> commit_error S \<noteq> None)"

definition engine_fails :: "sys \<Rightarrow> 'r world \<Rightarrow> bool" where
  "engine_fails S w = (engine_cache w = None \<and> isl (snd (create_database_engine S)))"

definition save_fails :: "sys \<Rightarrow> dataframe \<Rightarrow> 'r world \<Rightarrow> bool" where
  "save_fails S data w = (engine_fails S w \<or> tx_fails S data)"

text \<open>An entry for the SQL text is in the cache and has not expired at \<open>now\<close>.\<close>

definition cache_fresh :: "'r world \<Rightarrow> nat \<Rightarrow> string \<Rightarrow> bool" where
  "cache_fresh w now sql =
     (case data_cache w sql of Some (tbl, stored) \<Rightarrow> now < stored + ttl | None \<Rightarrow> False)"






section \<open>Sample inputs\<close>

text \<open>An environment without DB_PASSWORD and DB_NAME, and a complete one whose server
  rejects a row with a null id.\<close>

definition sys0 :: sys where
  "sys0 = \<lparr>environ = [''DB_USER'' \<mapsto> ''app'', ''DB_HOST'' \<mapsto> ''db.local''],
           py_int = (\<lambda>s. if s = ''5432'' then Some 5432 else None),
           connect_error = (\<lambda>u. None),
           read_sql = (\<lambda>r q. Inr \<lparr>columns = [''id''], rows = r\<rparr>),
           begin_error = None, delete_error = None,
           insert_error = (\<lambda>c r. None), commit_error = None\<rparr>"

definition sys1 :: sys where
  "sys1 = \<lparr>environ = [''DB_USER'' \<mapsto> ''app'', ''DB_PASSWORD'' \<mapsto> ''pw'',
                      ''DB_HOST'' \<mapsto> ''db.local'', ''DB_NAME'' \<mapsto> ''portal''],
           py_int = (\<lambda>s. if s = ''5432'' then Some 5432 else None),
           connect_error = (\<lambda>u. None),
           read_sql = (\<lambda>r q. Inr \<lparr>columns = [''id'', ''name''], rows = r\<rparr>),
           begin_error = None, delete_error = None,
           insert_error = (\<lambda>c r. if PNone \<in> set r
                                   then Some (OtherError ''null value in column id'') else None),
           commit_error = None\<rparr>"

definition url1 :: db_url where
  "url1 = \<lparr>url_username = ''app'', url_password = ''pw'', url_host = ''db.local'',
           url_port = 5432, url_database = ''portal''\<rparr>"

definition world1 :: "unit world" where
  "world1 = \<lparr>test_rows = [[PInt 1, PStr ''a''], [PInt 2, PStr ''b'']], trace = [],
             engine_cache = None, data_cache = Map.empty, geom_cache = Map.empty,
             selected_rows = None\<rparr>"


definition grid_same :: dataframe where
  "grid_same = \<lparr>columns = [''id'', ''name''],
                rows = [[PInt 2, PStr ''b''], [PInt 1, PStr ''a'']]\<rparr>"

text \<open>Tables with geometry: two collections around a null, a collection given as text, and
  nulls only.\<close>

definition point_feature :: "int \<Rightarrow> int \<Rightarrow> pyval" where
  "point_feature x y =
     PDict [(''type'', PStr ''Feature''),
            (''geometry'', PDict [(''type'', PStr ''Point''),
                                  (''coordinates'', PList [PInt x, PInt y])]),
            (''properties'', PDict [])]"

definition collection :: "pyval list \<Rightarrow> pyval" where
  "collection fs = PDict [(''type'', PStr ''FeatureCollection''), (''features'', PList fs)]"


definition table_text :: dataframe where
  "table_text = \<lparr>columns = [''id'', ''geometry''],
                 rows = [[PInt 1, collection [point_feature 1 2]]] @
                        [[PInt 2, PStr ''FeatureCollection'']] @
                        [[PInt 3, collection [point_feature 5 6]]]\<rparr>"


text \<open>A stand-in for the libraries: a feature's row is its geometry member, reprojection
  keeps it, a row's attributes are written as their column names.\<close>

definition geo_sample :: "exn option \<Rightarrow> pyval geo" where
  "geo_sample e =
     \<lparr>feature_row = (\<lambda>f. case f of
          PDict d \<Rightarrow> (case map_of d ''geometry'' of
                        Some g \<Rightarrow> Inr g | None \<Rightarrow> Inl (KeyError ''geometry''))
        | _ \<Rightarrow> Inl (TypeError ''feature is not a mapping'')),
      no_features_error = e,
      reproject = Inr,
      dumps = (\<lambda>row. Inr (concat (map fst row))),
      centroid = (\<lambda>rs. case rs of [] \<Rightarrow> Inl (ValueError ''no geometry'') | r # _ \<Rightarrow> Inr r)\<rparr>"






section \<open>The engine and the query cache\<close>

text \<open>
  C4.  When one of DB_USER, DB_PASSWORD, DB_HOST, DB_NAME is absent from the environment,
  creating the engine fails with the EnvironmentError that names the first absent one, in
  the order the source reads them, and no effect has been performed: no URL built, no
  connection attempted.
\<close>

theorem missing_setting_fails_first:
  assumes "k \<in> set required_settings" and "environ S k = None"
  shows "\<exists>k'. find (\<lambda>k. environ S k = None) required_settings = Some k'
              \<and> environ S k' = None
              \<and> create_database_engine S = ([], Inl (missing_variable k'))"
  using assms
  by (auto simp: create_database_engine_def required_settings_def Let_def
           split: option.splits)

theorem missing_setting_fails_first_witness:
  "''DB_NAME'' \<in> set required_settings \<and> environ sys0 ''DB_NAME'' = None
   \<and> find (\<lambda>k. environ sys0 k = None) required_settings = Some ''DB_PASSWORD''
   \<and> create_database_engine sys0 =
       ([], Inl (EnvironmentError
          (''Missing required environment variable: '' @ [CHR 0x27] @ ''DB_PASSWORD'' @ [CHR 0x27])))"
proof -
  have k: "''DB_NAME'' \<in> set required_settings" by (simp add: required_settings_def)
  have n: "environ sys0 ''DB_NAME'' = None" by (simp add: sys0_def)
  show ?thesis
    using missing_setting_fails_first [OF k n] k n
    by (simp add: sys0_def required_settings_def create_database_engine_def missing_variable_def
          quoted_def)
qed

lemma load_data_hit:
  "data_cache w sql = Some (tbl, t) \<Longrightarrow> now < t + ttl \<Longrightarrow> load_data S now sql w = (Inr tbl, w)"
  by (simp add: load_data_def)

lemma load_data_miss:
  "\<not> cache_fresh w now sql \<Longrightarrow>
     load_data S now sql w =
       (case load_data_body S sql w of
          (Inl e, w1) \<Rightarrow> (Inl e, w1)
        | (Inr t, w1) \<Rightarrow> (Inr t, w1\<lparr>data_cache := (data_cache w1)(sql \<mapsto> (t, now))\<rparr>))"
  by (auto simp: load_data_def cache_fresh_def split: option.splits)

lemma load_data_body_engine:
  "engine_cache w = Some eng \<Longrightarrow>
     load_data_body S sql w = (read_sql S (test_rows w) sql, w\<lparr>trace := trace w @ [Query sql]\<rparr>)"
  by (simp add: load_data_body_def get_database_engine_def)

lemma load_data_body_ok:
  assumes "load_data_body S sql w = (Inr tbl, w1)"
  shows "engine_cache w1 \<noteq> None \<and> data_cache w1 = data_cache w \<and> test_rows w1 = test_rows w
         \<and> read_sql S (test_rows w) sql = Inr tbl
         \<and> (\<exists>effs. trace w1 = trace w @ effs @ [Query sql])"
  using assms
  by (auto simp: load_data_body_def get_database_engine_def
           split: option.splits prod.splits sum.splits)

text \<open>
  C5.  When a call of \<open>load_data\<close> at time \<open>t1\<close> finds no fresh entry for the SQL text
  and returns a table, it has run the query; every later call for the same text before
  \<open>t1 + 600\<close> returns that table and leaves the state, trace included, as it is, so no
  query runs; and after \<open>load_data.clear()\<close> a call at any time runs the query again.
\<close>

theorem cached_query_reuse:
  assumes "\<not> cache_fresh w t1 sql" and "load_data S t1 sql w = (Inr tbl, w1)"
  shows "(\<exists>effs. trace w1 = trace w @ effs @ [Query sql])
       \<and> (\<forall>t2. t2 < t1 + ttl \<longrightarrow> load_data S t2 sql w1 = (Inr tbl, w1))
       \<and> (\<forall>t3. fst (load_data S t3 sql (load_data_clear w1)) = read_sql S (test_rows w1) sql
              \<and> trace (snd (load_data S t3 sql (load_data_clear w1))) = trace w1 @ [Query sql])"
proof -
  obtain r w0 where b: "load_data_body S sql w = (r, w0)" by (cases "load_data_body S sql w")
  from assms b have r: "r = Inr tbl" and w1: "w1 = w0\<lparr>data_cache := (data_cache w0)(sql \<mapsto> (tbl, t1))\<rparr>"
    by (auto simp: load_data_miss split: sum.splits)
  from load_data_body_ok[OF b[unfolded r]]
  obtain eng where eng: "engine_cache w0 = Some eng"
    and tr: "\<exists>effs. trace w0 = trace w @ effs @ [Query sql]" by auto
  have 1: "\<exists>effs. trace w1 = trace w @ effs @ [Query sql]" using tr w1 by simp
  have 2: "\<forall>t2. t2 < t1 + ttl \<longrightarrow> load_data S t2 sql w1 = (Inr tbl, w1)"
    using w1 by (simp add: load_data_hit)
  have c: "\<not> cache_fresh (load_data_clear w1) t3 sql" for t3
    by (simp add: cache_fresh_def load_data_clear_def)
  have e: "engine_cache (load_data_clear w1) = Some eng"
    using eng w1 by (simp add: load_data_clear_def)
  have 3: "fst (load_data S t3 sql (load_data_clear w1)) = read_sql S (test_rows w1) sql
         \<and> trace (snd (load_data S t3 sql (load_data_clear w1))) = trace w1 @ [Query sql]" for t3
  proof -
    have "load_data S t3 sql (load_data_clear w1) =
            (case read_sql S (test_rows (load_data_clear w1)) sql of
               Inl e \<Rightarrow> (Inl e, (load_data_clear w1)\<lparr>trace := trace (load_data_clear w1) @ [Query sql]\<rparr>)
             | Inr t \<Rightarrow> (Inr t, (load_data_clear w1)\<lparr>trace := trace (load_data_clear w1) @ [Query sql],
                                     data_cache := (data_cache (load_data_clear w1))(sql \<mapsto> (t, t3))\<rparr>))"
      by (simp add: load_data_miss[OF c] load_data_body_engine[OF e] split: sum.splits)
    then show ?thesis by (simp add: load_data_clear_def split: sum.splits)
  qed
  show ?thesis using 1 2 3 by blast
qed


lemma create_engine_sys1: "create_database_engine sys1 = ([BuildUrl url1, NetConnect url1], Inr url1)"
  by (simp add: create_database_engine_def sys1_def url1_def Let_def)

lemma engine_world1:
  "get_database_engine sys1 world1 =
     (Inr url1, world1\<lparr>trace := [BuildUrl url1, NetConnect url1], engine_cache := Some url1\<rparr>)"
  by (simp add: get_database_engine_def create_engine_sys1 world1_def)

lemma load_first:
  "load_data sys1 100 ''select * from public.test'' world1 =
     (Inr \<lparr>columns = [''id'', ''name''], rows = test_rows world1\<rparr>,
      world1\<lparr>trace := [BuildUrl url1, NetConnect url1, Query ''select * from public.test''],
              engine_cache := Some url1,
              data_cache := [''select * from public.test'' \<mapsto>
                 (\<lparr>columns = [''id'', ''name''], rows = test_rows world1\<rparr>, 100)]\<rparr>)"
  by (simp add: load_data_def load_data_body_def engine_world1 world1_def [THEN arg_cong [of _ _ data_cache]])
     (simp add: world1_def sys1_def)

theorem cached_query_reuse_witness:
  "\<not> cache_fresh world1 100 ''select * from public.test''
   \<and> trace (snd (load_data sys1 100 ''select * from public.test'' world1)) =
       [BuildUrl url1, NetConnect url1, Query ''select * from public.test'']
   \<and> trace (snd (load_data sys1 699 ''select * from public.test''
         (snd (load_data sys1 100 ''select * from public.test'' world1)))) =
       [BuildUrl url1, NetConnect url1, Query ''select * from public.test'']
   \<and> trace (snd (load_data sys1 150 ''select * from public.test''
         (load_data_clear (snd (load_data sys1 100 ''select * from public.test'' world1))))) =
       [BuildUrl url1, NetConnect url1, Query ''select * from public.test'',
        Query ''select * from public.test'']"
proof -
  have h: "\<not> cache_fresh world1 100 ''select * from public.test''"
    by (simp add: cache_fresh_def world1_def)
  show ?thesis using cached_query_reuse [OF h load_first] h
    by (simp add: load_first ttl_def)
qed

section \<open>Saving the edited table\<close>

lemma to_sql_ok:
  "\<not> list_ex (\<lambda>r. insert_error S cols r \<noteq> None) rs \<Longrightarrow>
     to_sql S cols rs (work, effs) = (None, (work @ rs, effs @ map TxInsert rs))"
  by (induction rs arbitrary: work effs) auto

lemma to_sql_fail:
  "list_ex (\<lambda>r. insert_error S cols r \<noteq> None) rs \<Longrightarrow>
     \<exists>e ins. to_sql S cols rs (work, effs) = (Some e, (work @ ins, effs @ map TxInsert ins))"
proof (induction rs arbitrary: work effs)
  case Nil then show ?case by simp
next
  case (Cons r rs)
  show ?case
  proof (cases "insert_error S cols r")
    case None
    with Cons.prems have "list_ex (\<lambda>r. insert_error S cols r \<noteq> None) rs" by simp
    from Cons.IH[OF this, of "work @ [r]" "effs @ [TxInsert r]"]
    obtain e dn where "to_sql S cols rs (work @ [r], effs @ [TxInsert r]) =
        (Some e, ((work @ [r]) @ dn, (effs @ [TxInsert r]) @ map TxInsert dn))" by blast
    then have "to_sql S cols (r # rs) (work, effs) = (Some e, (work @ (r # dn), effs @ map TxInsert (r # dn)))"
      using None by simp
    then show ?thesis by blast
  next
    case (Some e)
    then have "to_sql S cols (r # rs) (work, effs) = (Some e, (work @ [], effs @ map TxInsert []))" by simp
    then show ?thesis by blast
  qed
qed

lemma in_transaction_inserts:
  "in_transaction True (map TxInsert rs @ es) = in_transaction True es"
  by (induction rs) auto


lemma create_engine_effects:
  "in_transaction b (fst (create_database_engine S) @ es) = in_transaction b es"
  "TxCommit \<notin> set (fst (create_database_engine S))"
  "TxBegin \<notin> set (fst (create_database_engine S))"
  by (auto simp: create_database_engine_def Let_def split: option.splits)

lemma get_database_engine_cases:
  assumes "get_database_engine S w = (r, w1)"
  shows "\<exists>effs. (\<forall>b es. in_transaction b (effs @ es) = in_transaction b es)
            \<and> TxCommit \<notin> set effs \<and> TxBegin \<notin> set effs
            \<and> ((\<exists>e. r = Inl e \<and> engine_fails S w \<and> w1 = w\<lparr>trace := trace w @ effs\<rparr>)
               \<or> (\<exists>eng. r = Inr eng \<and> \<not> engine_fails S w
                     \<and> w1 = w\<lparr>trace := trace w @ effs, engine_cache := Some eng\<rparr>))"
proof (cases "engine_cache w")
  case (Some eng)
  with assms have "r = Inr eng" "w1 = w\<lparr>trace := trace w @ [], engine_cache := Some eng\<rparr>"
    by (auto simp: get_database_engine_def)
  then show ?thesis using Some
    by (intro exI[of _ "[]"]) (auto simp: engine_fails_def)
next
  case None
  obtain effs res where c: "create_database_engine S = (effs, res)" by (cases "create_database_engine S")
  have e: "\<forall>b es. in_transaction b (effs @ es) = in_transaction b es" "TxCommit \<notin> set effs" "TxBegin \<notin> set effs"
    using create_engine_effects[where S=S] c by auto
  show ?thesis
  proof (cases res)
    case (Inl x)
    with assms None c have "r = Inl x" "w1 = w\<lparr>trace := trace w @ effs\<rparr>"
      by (auto simp: get_database_engine_def)
    moreover have "engine_fails S w" using None c Inl by (simp add: engine_fails_def)
    ultimately show ?thesis using e by blast
  next
    case (Inr eng)
    with assms None c have "r = Inr eng" "w1 = w\<lparr>trace := trace w @ effs, engine_cache := Some eng\<rparr>"
      by (auto simp: get_database_engine_def)
    moreover have "\<not> engine_fails S w" using None c Inr by (simp add: engine_fails_def)
    ultimately show ?thesis using e by blast
  qed
qed

lemma replace_transaction_ok:
  assumes "\<not> tx_fails S data"
  shows "replace_transaction S data w =
           (None, w\<lparr>test_rows := rows data,
                     trace := trace w @ [TxBegin, TxDelete] @ map TxInsert (rows data) @ [TxCommit]\<rparr>)"
  using assms by (auto simp: tx_fails_def replace_transaction_def to_sql_ok)

lemma replace_transaction_fail:
  assumes "tx_fails S data"
  shows "\<exists>e effs. replace_transaction S data w = (Some e, w\<lparr>trace := trace w @ effs\<rparr>)
            \<and> TxCommit \<notin> set effs \<and> in_transaction False effs
            \<and> length (filter (\<lambda>x. x = TxBegin) effs) \<le> 1"
proof (cases "begin_error S")
  case (Some e)
  then have "replace_transaction S data w = (Some e, w\<lparr>trace := trace w @ []\<rparr>)"
    by (simp add: replace_transaction_def)
  then show ?thesis by (intro exI[of _ e] exI[of _ "[]"]) simp
next
  case b: None
  show ?thesis
  proof (cases "delete_error S")
    case (Some e)
    then have "replace_transaction S data w = (Some e, w\<lparr>trace := trace w @ [TxBegin, TxRollback]\<rparr>)"
      using b by (simp add: replace_transaction_def)
    then show ?thesis by (intro exI[of _ e] exI[of _ "[TxBegin, TxRollback]"]) simp
  next
    case d: None
    show ?thesis
    proof (cases "list_ex (\<lambda>r. insert_error S (columns data) r \<noteq> None) (rows data)")
      case True
      from to_sql_fail[OF this, of "[]" "[TxBegin, TxDelete]"]
      obtain e ins where "to_sql S (columns data) (rows data) ([], [TxBegin, TxDelete]) =
          (Some e, ([] @ ins, [TxBegin, TxDelete] @ map TxInsert ins))" by blast
      then have "replace_transaction S data w =
          (Some e, w\<lparr>trace := trace w @ ([TxBegin, TxDelete] @ map TxInsert ins @ [TxRollback])\<rparr>)"
        using b d by (simp add: replace_transaction_def)
      then show ?thesis
        by (intro exI[of _ e] exI[of _ "[TxBegin, TxDelete] @ map TxInsert ins @ [TxRollback]"])
           (auto simp: in_transaction_inserts)
    next
      case False
      with assms b d obtain e where c: "commit_error S = Some e" by (auto simp: tx_fails_def)
      have "replace_transaction S data w =
          (Some e, w\<lparr>trace := trace w @ ([TxBegin, TxDelete] @ map TxInsert (rows data) @ [TxRollback])\<rparr>)"
        using b d c False by (simp add: replace_transaction_def to_sql_ok)
      then show ?thesis
        by (intro exI[of _ e] exI[of _ "[TxBegin, TxDelete] @ map TxInsert (rows data) @ [TxRollback]"])
           (auto simp: in_transaction_inserts)
    qed
  qed
qed


lemma save_changes_cases:
  assumes "save_changes S data w = (out, w')"
  shows "(save_fails S data w \<and>
            (\<exists>e effs ec. out = save_error e
               \<and> w' = w\<lparr>trace := trace w @ effs, engine_cache := ec\<rparr>
               \<and> TxCommit \<notin> set effs \<and> in_transaction False effs
               \<and> length (filter (\<lambda>x. x = TxBegin) effs) \<le> 1))
       \<or> (\<not> save_fails S data w \<and>
            (\<exists>effs eng. out = saved
               \<and> w' = w\<lparr>test_rows := rows data,
                        trace := trace w @ effs @ [TxBegin, TxDelete] @ map TxInsert (rows data) @ [TxCommit],
                        engine_cache := Some eng, data_cache := Map.empty\<rparr>
               \<and> TxBegin \<notin> set effs
               \<and> (\<forall>b es. in_transaction b (effs @ es) = in_transaction b es)))"
proof -
  obtain r w1 where g: "get_database_engine S w = (r, w1)" by (cases "get_database_engine S w")
  from get_database_engine_cases[OF g] obtain effs where
    tr: "\<forall>b es. in_transaction b (effs @ es) = in_transaction b es"
    and nc: "TxCommit \<notin> set effs" and nb: "TxBegin \<notin> set effs"
    and cs: "(\<exists>e. r = Inl e \<and> engine_fails S w \<and> w1 = w\<lparr>trace := trace w @ effs\<rparr>)
           \<or> (\<exists>eng. r = Inr eng \<and> \<not> engine_fails S w
                 \<and> w1 = w\<lparr>trace := trace w @ effs, engine_cache := Some eng\<rparr>)"
    by blast
  have nb': "filter (\<lambda>x. x = TxBegin) effs = []" using nb by (auto simp: filter_empty_conv)
  have tr0: "in_transaction False effs" using tr[rule_format, of False "[]"] by simp
  from cs show ?thesis
  proof
    assume "\<exists>e. r = Inl e \<and> engine_fails S w \<and> w1 = w\<lparr>trace := trace w @ effs\<rparr>"
    then obtain e where "r = Inl e" "engine_fails S w" "w1 = w\<lparr>trace := trace w @ effs\<rparr>" by blast
    with assms g have "out = save_error e"
      "w' = w\<lparr>trace := trace w @ effs, engine_cache := engine_cache w\<rparr>"
      by (auto simp: save_changes_def)
    then show ?thesis using \<open>engine_fails S w\<close> nc nb' tr0 unfolding save_fails_def
      by (metis le0 list.size(3))
  next
    assume "\<exists>eng. r = Inr eng \<and> \<not> engine_fails S w
                 \<and> w1 = w\<lparr>trace := trace w @ effs, engine_cache := Some eng\<rparr>"
    then obtain eng where r: "r = Inr eng" and ne: "\<not> engine_fails S w"
      and w1: "w1 = w\<lparr>trace := trace w @ effs, engine_cache := Some eng\<rparr>" by blast
    show ?thesis
    proof (cases "tx_fails S data")
      case True
      from replace_transaction_fail[OF True, of w1] obtain e effs2 where
        rt: "replace_transaction S data w1 = (Some e, w1\<lparr>trace := trace w1 @ effs2\<rparr>)"
        and p: "TxCommit \<notin> set effs2" "in_transaction False effs2"
               "length (filter (\<lambda>x. x = TxBegin) effs2) \<le> 1" by blast
      from assms g r rt have o: "out = save_error e"
        and "w' = w1\<lparr>trace := trace w1 @ effs2\<rparr>"
        by (auto simp: save_changes_def)
      then have w': "w' = w\<lparr>trace := trace w @ (effs @ effs2), engine_cache := Some eng\<rparr>"
        using w1 by simp
      have "TxCommit \<notin> set (effs @ effs2)" "in_transaction False (effs @ effs2)"
        "length (filter (\<lambda>x. x = TxBegin) (effs @ effs2)) \<le> 1"
        using p nc nb' tr by auto
      then show ?thesis using True o w' unfolding save_fails_def by blast
    next
      case False
      from assms g r replace_transaction_ok[OF False, of w1]
      have "out = saved"
        "w' = load_data_clear (w1\<lparr>test_rows := rows data,
                 trace := trace w1 @ [TxBegin, TxDelete] @ map TxInsert (rows data) @ [TxCommit]\<rparr>)"
        by (auto simp: save_changes_def saved_def)
      then have "out = saved"
        "w' = w\<lparr>test_rows := rows data,
                        trace := trace w @ effs @ [TxBegin, TxDelete] @ map TxInsert (rows data) @ [TxCommit],
                        engine_cache := Some eng, data_cache := Map.empty\<rparr>"
        using w1 by (simp_all add: load_data_clear_def)
      then show ?thesis using False ne nb tr unfolding save_fails_def by blast
    qed
  qed
qed


text \<open>
  C6.  When the grid holds the same rows as \<open>public.test\<close>, counted with multiplicity,
  the table after the save holds that same multiset of rows; when the save goes through
  they are the grid's rows in the grid's order.
\<close>

theorem save_round_trip:
  assumes "mset (rows data) = mset (test_rows w)"
  shows "mset (test_rows (snd (save_changes S data w))) = mset (test_rows w)
       \<and> (\<not> save_fails S data w \<longrightarrow> test_rows (snd (save_changes S data w)) = rows data)"
proof -
  obtain out w' where s: "save_changes S data w = (out, w')" by (cases "save_changes S data w")
  from save_changes_cases[OF s] assms show ?thesis unfolding s by auto
qed






lemma save_ok_same: "\<not> save_fails sys1 grid_same world1"
  by (simp add: save_fails_def tx_fails_def engine_fails_def create_engine_sys1)
     (simp add: sys1_def grid_same_def)


theorem save_round_trip_witness:
  "mset (rows grid_same) = mset (test_rows world1)
   \<and> test_rows (snd (save_changes sys1 grid_same world1)) = rows grid_same
   \<and> mset (test_rows (snd (save_changes sys1 grid_same world1))) = mset (test_rows world1)"
proof -
  have h: "mset (rows grid_same) = mset (test_rows world1)"
    by (simp add: grid_same_def world1_def)
  show ?thesis using save_round_trip [OF h, of sys1] save_ok_same h by simp
qed


section \<open>Flattening the geometry column\<close>













lemma flatten_rows_append:
  "flatten_rows acc (xs @ ys) =
     (case flatten_rows acc xs of Inl e \<Rightarrow> Inl e | Inr acc' \<Rightarrow> flatten_rows acc' ys)"
  by (induction xs arbitrary: acc) (auto split: sum.splits)

lemma flatten_row_skip:
  assumes "map_of row ''geometry'' = Some g" and "truthy g" and "\<forall>fc. g \<noteq> PDict fc"
  shows "flatten_row acc row = Inr acc"
  using assms by (cases g) (auto simp: flatten_row_def series_get_def)

text \<open>
  C9.  A row whose geometry value is truthy and not a dictionary leaves the two lists of
  the loop as they are and raises nothing; the loop and the whole function, messages
  included, give on the table what they give on the table without that row.
\<close>

theorem non_dict_geometry_skipped:
  assumes "map_of (zip cs r) ''geometry'' = Some g" and "truthy g" and "\<forall>fc. g \<noteq> PDict fc"
  shows "flatten_row acc (zip cs r) = Inr acc
       \<and> flatten_rows acc (iterrows \<lparr>columns = cs, rows = before @ [r] @ after\<rparr>) =
           flatten_rows acc (iterrows \<lparr>columns = cs, rows = before @ after\<rparr>)
       \<and> process_geometry_body L \<lparr>columns = cs, rows = before @ [r] @ after\<rparr> =
           process_geometry_body L \<lparr>columns = cs, rows = before @ after\<rparr>"
proof -
  have s: "flatten_row a (zip cs r) = Inr a" for a
    using assms by (rule flatten_row_skip)
  have f: "flatten_rows a (iterrows \<lparr>columns = cs, rows = before @ [r] @ after\<rparr>) =
           flatten_rows a (iterrows \<lparr>columns = cs, rows = before @ after\<rparr>)" for a
    by (simp add: iterrows_def flatten_rows_append s split: sum.splits)
  show ?thesis
    using s f by (simp add: process_geometry_body_def process_geometry_try_def)
qed

lemma text_row:
  "map_of (zip [''id'', ''geometry''] [PInt 2, PStr ''FeatureCollection'']) ''geometry'' =
     Some (PStr ''FeatureCollection'')"
  by simp

theorem non_dict_geometry_skipped_witness:
  "truthy (PStr ''FeatureCollection'')
   \<and> process_geometry_body (geo_sample None) table_text =
       process_geometry_body (geo_sample None)
         \<lparr>columns = [''id'', ''geometry''],
          rows = [[PInt 1, collection [point_feature 1 2]]] @ [[PInt 3, collection [point_feature 5 6]]]\<rparr>"
proof -
  have t: "truthy (PStr ''FeatureCollection'')" by simp
  have d: "\<forall>fc. PStr ''FeatureCollection'' \<noteq> PDict fc" by simp
  show ?thesis
    using non_dict_geometry_skipped [OF text_row t d,
        of "([], [])" "[[PInt 1, collection [point_feature 1 2]]]"
           "[[PInt 3, collection [point_feature 5 6]]]" "geo_sample None"] t
    by (simp add: table_text_def)
qed

section \<open>The map page\<close>




























end
